theory Spec2Isabelle
  imports Main
begin

section \<open>The platform seen by \<open>hello.py\<close>\<close>

text \<open>
  The script calls one primitive, \<open>print\<close>, inside \<open>try ... except Exception as e\<close>.
  What the specification says of it is therefore decided by three things that the
  Python platform supplies: which exception classes derive from \<open>Exception\<close>, what a
  call of \<open>print\<close> does to the standard-output stream when it succeeds and when it
  raises, and what the interpreter does with the module once its body has finished
  (exit status, report of an exception that escaped, flush of standard output at
  shutdown).
\<close>

subsection \<open>Exceptions\<close>

text \<open>
  The built-in classes that a write to a text stream can raise, together with the roots
  of the hierarchy. \<open>mro\<close> lists a class and its bases up to \<open>BaseException\<close>, as
  \<open>cls.__mro__\<close> does (without \<open>object\<close>); \<open>issubclass\<close> is the test that an
  \<open>except\<close> clause performs on the class of the raised exception.
\<close>

datatype exc_class =
    BaseException
  | Exception
  | OSError
  | ConnectionError
  | BrokenPipeError
  | ValueError
  | UnicodeError
  | UnicodeEncodeError
  | MemoryError
  | KeyboardInterrupt
  | SystemExit
  | GeneratorExit

fun mro :: "exc_class \<Rightarrow> exc_class list" where
  "mro BaseException = [BaseException]"
| "mro Exception = [Exception, BaseException]"
| "mro OSError = [OSError, Exception, BaseException]"
| "mro ConnectionError = [ConnectionError, OSError, Exception, BaseException]"
| "mro BrokenPipeError =
     [BrokenPipeError, ConnectionError, OSError, Exception, BaseException]"
| "mro ValueError = [ValueError, Exception, BaseException]"
| "mro UnicodeError = [UnicodeError, ValueError, Exception, BaseException]"
| "mro UnicodeEncodeError =
     [UnicodeEncodeError, UnicodeError, ValueError, Exception, BaseException]"
| "mro MemoryError = [MemoryError, Exception, BaseException]"
| "mro KeyboardInterrupt = [KeyboardInterrupt, BaseException]"
| "mro SystemExit = [SystemExit, BaseException]"
| "mro GeneratorExit = [GeneratorExit, BaseException]"

definition issubclass :: "exc_class \<Rightarrow> exc_class \<Rightarrow> bool" where
  "issubclass c d = (d \<in> set (mro c))"

text \<open>
  The attribute \<open>code\<close> of a \<open>SystemExit\<close>: absent (\<open>None\<close>), an integer, or any other
  object. No other class reads it.
\<close>

datatype exit_code = Code_none | Code_int int | Code_other

text \<open>
  An exception object: its class, the text \<open>str(e)\<close> that an f-string field \<open>{e}\<close>
  renders, and the exit code it carries.
\<close>

datatype exc = Exc (cls: exc_class) (str: string) (code: exit_code)

subsection \<open>The process state\<close>

text \<open>
  What the interpreter leaves on standard error: for an exception that escaped the
  module a traceback, or the message of a \<open>SystemExit\<close> whose code is neither \<open>None\<close>
  nor an integer; for an exception raised while it flushes standard output at shutdown,
  the note that the exception was ignored.
\<close>

datatype report = Traceback exc | Exit_message string | Ignored exc

text \<open>
  \<open>stdout\<close> is the log of the stream: one entry for each call of \<open>print\<close>, holding the
  text of that call that reached the stream. \<open>argv\<close> is \<open>sys.argv\<close>. \<open>other\<close> stands
  for every other piece of state a process can reach: files, environment variables,
  network ports, persistent storage.
\<close>

record 'a world =
  stdout :: "string list"
  stderr :: "report list"
  argv :: "string list"
  other :: 'a

definition stdout_text :: "'a world \<Rightarrow> string" where
  "stdout_text w = concat (stdout w)"

subsection \<open>The primitive \<open>print\<close>\<close>

text \<open>
  A call of \<open>print(s)\<close> writes \<open>s\<close> and the line terminator to \<open>sys.stdout\<close>. The
  platform decides whether the call completes. When it does not, it raises an
  exception after some prefix of the text (possibly empty, possibly all of it) has
  reached the stream: \<open>Fault n e\<close> says that \<open>n\<close> characters were written before \<open>e\<close>
  was raised. The outcome of each call (\<open>None\<close> for a call that completes) is a
  parameter of the model.
\<close>

datatype fault = Fault (written: nat) (raised: exc)

definition print :: "fault option \<Rightarrow> string \<Rightarrow> 'a world \<Rightarrow> exc option \<times> 'a world" where
  "print outcome s w =
     (case outcome of
        None \<Rightarrow> (None, w\<lparr>stdout := stdout w @ [s @ ''\<newline>'']\<rparr>)
      | Some (Fault n e) \<Rightarrow> (Some e, w\<lparr>stdout := stdout w @ [take n (s @ ''\<newline>'')]\<rparr>))"

section \<open>The script\<close>

text \<open>
  \<^verbatim>\<open>
  def main():
      try:
          print("Hello, World!")
      except Exception as e:
          print(f"An unexpected error occurred while printing: {e}")
  \<close>
  A statement maps a state to the state after it and to the exception that is
  propagating, if any. \<open>o1\<close> is the platform's outcome for the \<open>print\<close> of the greeting,
  \<open>o2\<close> its outcome for the \<open>print\<close> in the handler, consulted only when that call is
  reached.
\<close>

definition main :: "fault option \<Rightarrow> fault option \<Rightarrow> 'a world \<Rightarrow> exc option \<times> 'a world" where
  "main o1 o2 w =
     (case print o1 ''Hello, World!'' w of
        (None, w1) \<Rightarrow> (None, w1)
      | (Some e, w1) \<Rightarrow>
          if issubclass (cls e) Exception
          then print o2 (''An unexpected error occurred while printing: '' @ str e) w1
          else (Some e, w1))"

text \<open>
  \<^verbatim>\<open>
  if __name__ == "__main__":
      main()
  \<close>
  The body of the module. The \<open>def\<close> statement only binds the name \<open>main\<close>. The
  parameter is the value of \<open>__name__\<close>: \<open>"__main__"\<close> when the file is run as a script,
  the module's name when it is imported.
\<close>

definition hello :: "string \<Rightarrow> fault option \<Rightarrow> fault option \<Rightarrow> 'a world \<Rightarrow> exc option \<times> 'a world" where
  "hello name o1 o2 w = (if name = ''__main__'' then main o1 o2 w else (None, w))"

section \<open>Running the script as a program\<close>

text \<open>
  The interpreter's top level, in two steps.

  First the end of the module body. A body that finishes gives exit status 0. An
  exception that escapes it ends the run: a \<open>SystemExit\<close> exits with its code (0 for
  \<open>None\<close>; for an integer its low eight bits, or 255 when it does not fit a C \<open>long\<close> of
  64 bits; 1 and the message on standard error for anything else); a
  \<open>KeyboardInterrupt\<close> is reported with a traceback and the process ends as if
  interrupted (status 130 as a POSIX shell shows it); any other exception is reported
  with a traceback and gives status 1.
\<close>

definition exit_status :: "exc \<Rightarrow> nat" where
  "exit_status e =
     (if issubclass (cls e) SystemExit then
        (case code e of
           Code_none \<Rightarrow> 0
         | Code_int n \<Rightarrow> if - (2 ^ 63) \<le> n \<and> n < 2 ^ 63 then nat (n mod 256) else 255
         | Code_other \<Rightarrow> 1)
      else if issubclass (cls e) KeyboardInterrupt then 130
      else 1)"

definition reported :: "exc \<Rightarrow> report list" where
  "reported e =
     (if issubclass (cls e) SystemExit then
        (case code e of Code_other \<Rightarrow> [Exit_message (str e)] | _ \<Rightarrow> [])
      else [Traceback e])"

text \<open>
  Then the shutdown of the interpreter, which flushes \<open>sys.stdout\<close>. A stream that
  buffers lets every \<open>print\<close> complete and writes at this flush only, so the flush is
  where a full device or a broken pipe can show. Its outcome \<open>fl\<close> is a parameter like
  the outcomes of the calls of \<open>print\<close>: \<open>None\<close> when it succeeds, \<open>Fault n e\<close> when it
  raises \<open>e\<close> after only the first \<open>n\<close> characters of all that the calls of \<open>print\<close>
  had handed to the stream reached standard output. A failed flush is reported on
  standard error as an ignored exception and turns the exit status into 120, except
  after an escaped \<open>KeyboardInterrupt\<close>, where the process still ends as interrupted.
\<close>

fun deliver :: "nat \<Rightarrow> string list \<Rightarrow> string list" where
  "deliver n [] = []"
| "deliver n (s # ss) = take n s # deliver (n - length s) ss"

definition interrupted :: "exc option \<Rightarrow> bool" where
  "interrupted r = (case r of None \<Rightarrow> False | Some e \<Rightarrow> issubclass (cls e) KeyboardInterrupt)"

definition toplevel :: "fault option \<Rightarrow> exc option \<times> 'a world \<Rightarrow> nat \<times> 'a world" where
  "toplevel fl r =
     (let (st, w) =
        (case r of
           (None, w) \<Rightarrow> (0, w)
         | (Some e, w) \<Rightarrow> (exit_status e, w\<lparr>stderr := stderr w @ reported e\<rparr>))
      in case fl of
           None \<Rightarrow> (st, w)
         | Some (Fault n e') \<Rightarrow>
             (if interrupted (fst r) then st else 120,
              w\<lparr>stdout := deliver n (stdout w), stderr := stderr w @ [Ignored e']\<rparr>))"

text \<open>
  \<open>python hello.py args\<close>: a fresh process, started with its standard streams open and
  empty, with \<open>sys.argv\<close> holding the script's name and the arguments, and \<open>__name__\<close>
  set to \<open>"__main__"\<close>. The result is the exit status and the final state.
\<close>

definition boot :: "string list \<Rightarrow> 'a \<Rightarrow> 'a world" where
  "boot args x = \<lparr>stdout = [], stderr = [], argv = ''hello.py'' # args, other = x\<rparr>"

definition run ::
  "string list \<Rightarrow> fault option \<Rightarrow> fault option \<Rightarrow> fault option \<Rightarrow> 'a \<Rightarrow> nat \<times> 'a world" where
  "run args o1 o2 fl x = toplevel fl (hello ''__main__'' o1 o2 (boot args x))"

section \<open>Basic facts\<close>

text \<open>The two outcomes of a call of \<open>print\<close>, and the three paths through \<open>main\<close>.\<close>

lemma print_completes:
  "print None s w = (None, w\<lparr>stdout := stdout w @ [s @ ''\<newline>'']\<rparr>)"
  by (simp add: print_def)

lemma print_raises:
  "print (Some (Fault n e)) s w =
     (Some e, w\<lparr>stdout := stdout w @ [take n (s @ ''\<newline>'')]\<rparr>)"
  by (simp add: print_def)

lemma main_completes:
  "main None o2 w = (None, w\<lparr>stdout := stdout w @ [''Hello, World!\<newline>'']\<rparr>)"
  by (simp add: main_def print_completes)

lemma main_handles:
  "issubclass (cls e) Exception \<Longrightarrow>
   main (Some (Fault n e)) o2 w =
     print o2 (''An unexpected error occurred while printing: '' @ str e)
       (w\<lparr>stdout := stdout w @ [take n ''Hello, World!\<newline>'']\<rparr>)"
  by (simp add: main_def print_raises)

lemma main_escapes:
  "\<not> issubclass (cls e) Exception \<Longrightarrow>
   main (Some (Fault n e)) o2 w =
     (Some e, w\<lparr>stdout := stdout w @ [take n ''Hello, World!\<newline>'']\<rparr>)"
  by (simp add: main_def print_raises)

lemma hello_script: "hello ''__main__'' o1 o2 w = main o1 o2 w"
  by (simp add: hello_def)

text \<open>The top level after a body that finished, with and without a failed flush.\<close>

lemma toplevel_completed: "toplevel None (None, w) = (0, w)"
  by (simp add: toplevel_def)

lemma toplevel_flush_failed:
  "toplevel (Some (Fault n e)) (None, w) =
     (120, w\<lparr>stdout := deliver n (stdout w), stderr := stderr w @ [Ignored e]\<rparr>)"
  by (simp add: toplevel_def interrupted_def)

lemma toplevel_escaped:
  "toplevel None (Some e, w) = (exit_status e, w\<lparr>stderr := stderr w @ reported e\<rparr>)"
  by (simp add: toplevel_def)

text \<open>What a failed flush lets through is a prefix of the text handed to the stream.\<close>

lemma concat_deliver: "concat (deliver n ss) = take n (concat ss)"
  by (induction ss arbitrary: n) simp_all


lemma main_indep:
  "stdout w = stdout v \<Longrightarrow>
   fst (main o1 o2 w) = fst (main o1 o2 v) \<and>
   stdout (snd (main o1 o2 w)) = stdout (snd (main o1 o2 v))"
  by (simp add: main_def print_def split: option.split fault.split)

text \<open>
  A direct run in which the \<open>print\<close> of the greeting completes: with a flush that
  succeeds, and with one that fails.
\<close>

lemma run_completes:
  "run args None o2 None x =
     (0, \<lparr>stdout = [''Hello, World!\<newline>''], stderr = [],
          argv = ''hello.py'' # args, other = x\<rparr>)"
  by (simp add: run_def hello_script boot_def main_completes toplevel_completed)

lemma run_flush_failed:
  "run args None o2 (Some (Fault n e)) x =
     (120, \<lparr>stdout = [take n ''Hello, World!\<newline>''], stderr = [Ignored e],
            argv = ''hello.py'' # args, other = x\<rparr>)"
  by (simp add: run_def hello_script boot_def main_completes toplevel_flush_failed)

section \<open>The claims\<close>

subsection \<open>C1: output and exit status of a direct run\<close>

text \<open>
  Claim C1, as amended. For every direct invocation with no command-line arguments in
  which the write of the greeting succeeds (the call of \<open>print\<close> completes and so does
  the flush of the stream when the interpreter shuts down), the text on standard output
  is exactly \<open>Hello, World!\<close> followed by one line terminator, and the exit status is
  zero. The outcome \<open>o2\<close> of the handler's \<open>print\<close> and the rest of the state \<open>x\<close> are
  arbitrary.
\<close>

theorem direct_run_greets:
  "stdout_text (snd (run [] None o2 None x)) = ''Hello, World!\<newline>'' \<and>
   fst (run [] None o2 None x) = 0"
  by (simp add: run_completes stdout_text_def)

text \<open>
  The claim as written speaks of every direct invocation. On a platform where the write
  of the greeting raises \<open>OSError\<close> and the write of the diagnostic succeeds, the
  handler runs and standard output holds the diagnostic, not the greeting.
\<close>

theorem direct_run_greets_needs_write:
  "stdout_text
     (snd (run [] (Some (Fault 0 (Exc OSError ''[Errno 5] Input/output error'' Code_none)))
            None None ()))
   \<noteq> ''Hello, World!\<newline>''"
  by (simp add: run_def hello_def boot_def toplevel_def main_def print_def issubclass_def
      stdout_text_def)

subsection \<open>C2: command-line arguments are ignored\<close>

text \<open>
  Claim C2. For every pair of invocations, one with no command-line arguments and one
  with any arguments, on the same platform behaviour (the outcomes of the calls of
  \<open>print\<close> and of the final flush), the exit status, the writes to standard output and
  the reports on standard error are identical.
\<close>

theorem arguments_ignored:
  "fst (run args o1 o2 fl x) = fst (run [] o1 o2 fl x) \<and>
   stdout (snd (run args o1 o2 fl x)) = stdout (snd (run [] o1 o2 fl x)) \<and>
   stderr (snd (run args o1 o2 fl x)) = stderr (snd (run [] o1 o2 fl x))"
  by (simp add: run_def hello_def boot_def toplevel_def main_def print_def
      split: option.split fault.split)

subsection \<open>C3: a failed write is reported\<close>

text \<open>
  Claim C3, as amended. If the write of the greeting raises an exception whose class is
  \<open>Exception\<close> or one of its subclasses, and the write of the diagnostic succeeds (its
  \<open>print\<close> completes and so does the final flush), then the program prints
  \<open>An unexpected error occurred while printing: <details>\<close>, where \<open><details>\<close> is
  \<open>str(e)\<close>, on standard output, after whatever part of the greeting had been written,
  and terminates normally: nothing reaches standard error and the exit status is zero.
\<close>

theorem write_failure_reported:
  "issubclass (cls e) Exception \<Longrightarrow>
   run args (Some (Fault n e)) None None x =
     (0, \<lparr>stdout = [take n ''Hello, World!\<newline>'',
                     ''An unexpected error occurred while printing: '' @ str e @ ''\<newline>''],
          stderr = [], argv = ''hello.py'' # args, other = x\<rparr>)"
  by (simp add: run_def hello_script boot_def main_handles print_completes toplevel_completed)

theorem write_failure_reported_witness:
  "issubclass (cls (Exc OSError ''[Errno 5] Input/output error'' Code_none)) Exception \<and>
   run [] (Some (Fault 0 (Exc OSError ''[Errno 5] Input/output error'' Code_none)))
       None None () =
     (0, \<lparr>stdout = [[],
                     ''An unexpected error occurred while printing: [Errno 5] Input/output error\<newline>''],
          stderr = [], argv = [''hello.py''], other = ()\<rparr>)"
proof -
  have sub: "issubclass (cls (Exc OSError ''[Errno 5] Input/output error'' Code_none)) Exception"
    by (simp add: issubclass_def)
  show ?thesis
    using sub write_failure_reported [OF sub, of "[]" 0 "()"] by simp
qed

text \<open>
  The claim as written promises the diagnostic and a normal end after every failure of
  the write. On a closed output stream both calls of \<open>print\<close> raise \<open>ValueError\<close>:
  the second one is raised inside the handler and escapes, no diagnostic is printed, and
  the exit status is 1. (A closed stream is not flushed at shutdown.)
\<close>

theorem closed_stream_not_reported:
  "run [] (Some (Fault 0 (Exc ValueError ''I/O operation on closed file.'' Code_none)))
          (Some (Fault 0 (Exc ValueError ''I/O operation on closed file.'' Code_none)))
          None () =
     (1, \<lparr>stdout = [[], []],
          stderr = [Traceback (Exc ValueError ''I/O operation on closed file.'' Code_none)],
          argv = [''hello.py''], other = ()\<rparr>)"
  by (simp add: run_def hello_def boot_def toplevel_def main_def print_def issubclass_def
      exit_status_def reported_def)

subsection \<open>C4: the exit status\<close>



subsection \<open>C5: importing the module\<close>

text \<open>
  Claim C5. When the module is imported, so that \<open>__name__\<close> is not \<open>"__main__"\<close>, the
  entry routine is not called: the body finishes without an exception and leaves the
  whole state, standard output and standard error included, as it was, whatever the
  platform would have done with a write.
\<close>

theorem import_is_silent:
  "name \<noteq> ''__main__'' \<Longrightarrow> hello name o1 o2 w = (None, w)"
  by (simp add: hello_def)

theorem import_is_silent_witness:
  "''hello'' \<noteq> ''__main__'' \<and>
   hello ''hello''
     (Some (Fault 0 (Exc ValueError ''I/O operation on closed file.'' Code_none))) None
     \<lparr>stdout = [''earlier output''], stderr = [], argv = [''app.py''], other = ()\<rparr> =
   (None, \<lparr>stdout = [''earlier output''], stderr = [], argv = [''app.py''], other = ()\<rparr>)"
proof -
  have ne: "''hello'' \<noteq> ''__main__''" by simp
  show ?thesis
    using ne import_is_silent [OF ne] by simp
qed

subsection \<open>C6: standard error under normal operation\<close>

text \<open>
  Claim C6. For every invocation in which the write of the greeting succeeds (the call
  of \<open>print\<close> and the final flush), whatever the arguments, nothing is written to
  standard error.
\<close>

theorem normal_run_stderr_empty:
  "stderr (snd (run args None o2 None x)) = []"
  by (simp add: run_completes)

subsection \<open>C7: nothing but the output streams is touched\<close>




subsection \<open>C8: determinism\<close>

text \<open>
  Claim C8. Two executions under the same conditions, that is with the same outcomes of
  the platform's writes (the calls of \<open>print\<close> and the final flush), produce the same
  standard output and the same exit status, whatever their arguments and whatever the
  rest of their state (which may even be of different types). In particular any two
  normal executions do; wherever the \<open>print\<close> of the greeting completes, the outcome the
  handler's write would have had does not matter either.
\<close>

theorem run_deterministic:
  "fst (run a o1 o2 fl x) = fst (run b o1 o2 fl y) \<and>
   stdout_text (snd (run a o1 o2 fl x)) = stdout_text (snd (run b o1 o2 fl y)) \<and>
   fst (run a None p fl x) = fst (run b None q fl y) \<and>
   stdout_text (snd (run a None p fl x)) = stdout_text (snd (run b None q fl y)) \<and>
   fst (run a None p None x) = fst (run b None q None y) \<and>
   stdout_text (snd (run a None p None x)) = stdout_text (snd (run b None q None y))"
proof -
  have same: "fst (run a o1 o2 fl x) = fst (run b o1 o2 fl y) \<and>
      stdout_text (snd (run a o1 o2 fl x)) = stdout_text (snd (run b o1 o2 fl y))"
    by (simp add: run_def hello_def boot_def toplevel_def main_def print_def stdout_text_def
        interrupted_def split: option.split fault.split)
  have greeted: "fst (run a None p fl x) = fst (run b None q fl y) \<and>
      stdout_text (snd (run a None p fl x)) = stdout_text (snd (run b None q fl y))"
  proof (cases fl)
    case None
    then show ?thesis by (simp add: run_completes stdout_text_def)
  next
    case (Some f)
    then show ?thesis by (cases f) (simp add: run_flush_failed stdout_text_def)
  qed
  have normal: "fst (run a None p None x) = fst (run b None q None y) \<and>
      stdout_text (snd (run a None p None x)) = stdout_text (snd (run b None q None y))"
    by (simp add: run_completes stdout_text_def)
  from same greeted normal show ?thesis by blast
qed

subsection \<open>C9: the handler catches \<open>Exception\<close> only\<close>

text \<open>
  Claim C9. The handler around the \<open>print\<close> catches exceptions of class \<open>Exception\<close>
  and its subclasses only. An exception raised by the write whose class does not derive
  from \<open>Exception\<close>, such as \<open>KeyboardInterrupt\<close> or \<open>SystemExit\<close>, is not caught: it
  propagates out of \<open>main\<close>, and the handler's \<open>print\<close> is not executed. An exception
  whose class derives from \<open>Exception\<close> is caught, so that \<open>main\<close> returns normally when
  the handler's \<open>print\<close> completes.
\<close>

theorem handler_catches_only_Exception:
  "(\<not> issubclass (cls e) Exception \<longrightarrow>
      main (Some (Fault n e)) o2 w =
        (Some e, w\<lparr>stdout := stdout w @ [take n ''Hello, World!\<newline>'']\<rparr>)) \<and>
   (issubclass (cls e) Exception \<longrightarrow> fst (main (Some (Fault n e)) None w) = None) \<and>
   \<not> issubclass KeyboardInterrupt Exception \<and>
   \<not> issubclass SystemExit Exception"
proof -
  have escapes: "\<not> issubclass (cls e) Exception \<longrightarrow>
      main (Some (Fault n e)) o2 w =
        (Some e, w\<lparr>stdout := stdout w @ [take n ''Hello, World!\<newline>'']\<rparr>)"
    by (simp add: main_escapes)
  have caught: "issubclass (cls e) Exception \<longrightarrow> fst (main (Some (Fault n e)) None w) = None"
    by (simp add: main_handles print_completes)
  have classes: "\<not> issubclass KeyboardInterrupt Exception \<and> \<not> issubclass SystemExit Exception"
    by (simp add: issubclass_def)
  from escapes caught classes show ?thesis by blast
qed

theorem handler_catches_only_Exception_witness:
  "\<not> issubclass (cls (Exc KeyboardInterrupt [] Code_none)) Exception \<and>
   main (Some (Fault 5 (Exc KeyboardInterrupt [] Code_none))) None (boot [] ()) =
     (Some (Exc KeyboardInterrupt [] Code_none),
      \<lparr>stdout = [''Hello''], stderr = [], argv = [''hello.py''], other = ()\<rparr>) \<and>
   issubclass (cls (Exc BrokenPipeError ''[Errno 32] Broken pipe'' Code_none)) Exception \<and>
   fst (main (Some (Fault 5 (Exc BrokenPipeError ''[Errno 32] Broken pipe'' Code_none))) None
          (boot [] ())) = None"
proof -
  have no: "\<not> issubclass (cls (Exc KeyboardInterrupt [] Code_none)) Exception"
    by (simp add: issubclass_def)
  have yes: "issubclass (cls (Exc BrokenPipeError ''[Errno 32] Broken pipe'' Code_none)) Exception"
    by (simp add: issubclass_def)
  show ?thesis
    using no yes
      handler_catches_only_Exception
        [of "Exc KeyboardInterrupt [] Code_none" 5 None "boot [] ()"]
      handler_catches_only_Exception
        [of "Exc BrokenPipeError ''[Errno 32] Broken pipe'' Code_none" 5 None "boot [] ()"]
    by (simp add: boot_def)
qed

subsection \<open>C10: the handler's own write is not guarded\<close>

text \<open>
  Claim C10. The diagnostic is written with \<open>print\<close> to standard output, the stream whose
  failure started the handler. If that \<open>print\<close> raises as well, whatever the class of its
  exception \<open>e'\<close>, then \<open>e'\<close> propagates out of \<open>main\<close>: nothing guards the handler.
\<close>

theorem handler_print_unguarded:
  "issubclass (cls e) Exception \<Longrightarrow>
   main (Some (Fault n e)) None w =
     (None, w\<lparr>stdout := stdout w @ [take n ''Hello, World!\<newline>'',
         ''An unexpected error occurred while printing: '' @ str e @ ''\<newline>'']\<rparr>) \<and>
   main (Some (Fault n e)) (Some (Fault m e')) w =
     (Some e', w\<lparr>stdout := stdout w @ [take n ''Hello, World!\<newline>'',
         take m (''An unexpected error occurred while printing: '' @ str e @ ''\<newline>'')]\<rparr>)"
  by (simp add: main_handles print_completes print_raises)

theorem handler_print_unguarded_witness:
  "issubclass (cls (Exc ValueError ''I/O operation on closed file.'' Code_none)) Exception \<and>
   main (Some (Fault 0 (Exc ValueError ''I/O operation on closed file.'' Code_none)))
        (Some (Fault 0 (Exc ValueError ''I/O operation on closed file.'' Code_none)))
        (boot [] ()) =
     (Some (Exc ValueError ''I/O operation on closed file.'' Code_none),
      \<lparr>stdout = [[], []], stderr = [], argv = [''hello.py''], other = ()\<rparr>)"
proof -
  have sub: "issubclass (cls (Exc ValueError ''I/O operation on closed file.'' Code_none)) Exception"
    by (simp add: issubclass_def)
  show ?thesis
    using sub handler_print_unguarded
      [OF sub, of 0 "boot [] ()" 0 "Exc ValueError ''I/O operation on closed file.'' Code_none"]
    by (simp add: boot_def)
qed

end
